theory Spec2Isabelle
  imports Complex_Main "HOL-Library.Sublist"
begin

section \<open>The recommendation engine of \<^verbatim>\<open>models/recommendation_engine.py\<close>\<close>

text \<open>
  A shallow embedding of the class \<^verbatim>\<open>RecommendationEngine\<close>. The two data frames are
  lists of rows in row order, the similarity matrix is a list of rows or \<open>None\<close> (it is
  only computed for a non-empty catalog). A Python float is modelled as the real number
  it denotes (finite values; the columns hold no NaN). The queries compare and copy
  floats; the one place that computes with them, the trending score, rounds every
  operation to binary64 as the hardware does.
\<close>

subsection \<open>Data model\<close>

text \<open>A row of \<^verbatim>\<open>products_df\<close>; the fields are the columns of the table.\<close>

record product =
  product_id :: string
  name :: string
  category :: string
  price :: real
  rating :: real
  views :: int
  purchases :: int

text \<open>A row of \<^verbatim>\<open>interactions_df\<close>; the rating is optional.\<close>

record interaction =
  user_id :: string
  i_product_id :: string
  interaction_type :: string
  i_rating :: "real option"
  timestamp :: string

text \<open>
  The dictionaries the queries return. There are three shapes: the one built by
  \<^verbatim>\<open>get_similar_products\<close> (with \<^verbatim>\<open>similarity_score\<close>), the one built by
  \<^verbatim>\<open>get_trending_products\<close> (with \<^verbatim>\<open>views\<close> and \<^verbatim>\<open>purchases\<close>) and the one built by
  \<^verbatim>\<open>get_products_by_category\<close>.
\<close>

datatype item =
  SimilarItem (item_id: string) (item_name: string) (item_category: string)
    (item_price: real) (item_rating: real) (similarity_score: real)
| TrendingItem (item_id: string) (item_name: string) (item_category: string)
    (item_price: real) (item_rating: real) (item_views: int) (item_purchases: int)
| CategoryItem (item_id: string) (item_name: string) (item_category: string)
    (item_price: real) (item_rating: real)

text \<open>
  The attributes of the engine that the queries read or write. The similarity matrix is
  computed once, at start-up, by scikit-learn (\<^verbatim>\<open>MinMaxScaler\<close>, \<^verbatim>\<open>cosine_similarity\<close>)
  from the catalog; the queries only read it, and the model takes it as a field of the
  state.
\<close>

record engine =
  products_df :: "product list"
  interactions_df :: "interaction list"
  product_similarity_matrix :: "real list list option"

subsection \<open>Python and pandas primitives\<close>

text \<open>
  The slice \<^verbatim>\<open>xs[start:stop]\<close>: a negative bound counts from the end, and both bounds
  are clamped to the list.
\<close>

definition py_slice :: "int \<Rightarrow> int \<Rightarrow> 'a list \<Rightarrow> 'a list" where
  "py_slice start stop xs =
     (let n = int (length xs);
          clamp = (\<lambda>i. if i < 0 then max 0 (i + n) else min i n);
          lo = clamp start;
          hi = clamp stop
      in take (nat (hi - lo)) (drop (nat lo) xs))"

text \<open>
  \<^verbatim>\<open>sorted(xs, key=key, reverse=True)\<close>: Python's sort is stable, also with
  \<^verbatim>\<open>reverse=True\<close>, so elements with equal keys keep their order. The library's
  \<open>sort_key\<close> is a stable insertion sort; sorting on the negated key gives the
  descending order.
\<close>

definition sorted_reverse :: "('a \<Rightarrow> real) \<Rightarrow> 'a list \<Rightarrow> 'a list" where
  "sorted_reverse key xs = sort_key (\<lambda>x. - key x) xs"

text \<open>
  Float arithmetic. \<open>float64 x\<close> is the binary64 number nearest to the real \<open>x\<close>, ties
  to the even significand: with \<open>e\<close> the exponent of \<open>x\<close> (at least \<open>-1022\<close>, below which
  the numbers are subnormal) the significand has 53 bits, so the result is a multiple
  of \<open>2 ^ (e - 52)\<close>. Every float operation returns the rounded exact result; a literal
  and the conversion of an \<^verbatim>\<open>int64\<close> are rounded in the same way. Results beyond the
  largest finite float are outside the model.
\<close>

function floor_log2_int :: "int \<Rightarrow> int" where
  "floor_log2_int n = (if n < 2 then 0 else 1 + floor_log2_int (n div 2))"
  by pat_completeness auto
termination
  by (relation "measure nat") auto

declare floor_log2_int.simps [simp del]

definition pow2 :: "int \<Rightarrow> real" where
  "pow2 e = (if 0 \<le> e then 2 ^ nat e else 1 / 2 ^ nat (- e))"

text \<open>The exponent of a positive real \<open>a\<close>: the \<open>e\<close> with \<open>2 ^ e \<le> a < 2 ^ (e + 1)\<close>.\<close>

definition floor_log2 :: "real \<Rightarrow> int" where
  "floor_log2 a =
     (if 1 \<le> a then floor_log2_int \<lfloor>a\<rfloor>
      else if a * pow2 (floor_log2_int \<lfloor>1 / a\<rfloor>) = 1 then - floor_log2_int \<lfloor>1 / a\<rfloor>
      else - floor_log2_int \<lfloor>1 / a\<rfloor> - 1)"

text \<open>The integer nearest to \<open>m\<close>, the even one of the two when \<open>m\<close> is halfway.\<close>

definition round_half_even :: "real \<Rightarrow> int" where
  "round_half_even m =
     (if m - of_int \<lfloor>m\<rfloor> < 1 / 2 then \<lfloor>m\<rfloor>
      else if 1 / 2 < m - of_int \<lfloor>m\<rfloor> then \<lfloor>m\<rfloor> + 1
      else if even \<lfloor>m\<rfloor> then \<lfloor>m\<rfloor>
      else \<lfloor>m\<rfloor> + 1)"

text \<open>The distance between neighbouring floats at a positive real \<open>a\<close>.\<close>

definition ulp :: "real \<Rightarrow> real" where
  "ulp a = pow2 (max (floor_log2 a) (- 1022) - 52)"

definition float64 :: "real \<Rightarrow> real" where
  "float64 x =
     (if x = 0 then 0
      else sgn x * of_int (round_half_even (\<bar>x\<bar> / ulp \<bar>x\<bar>)) * ulp \<bar>x\<bar>)"

definition fmul :: "real \<Rightarrow> real \<Rightarrow> real" where
  "fmul a b = float64 (a * b)"

definition fadd :: "real \<Rightarrow> real \<Rightarrow> real" where
  "fadd a b = float64 (a + b)"

text \<open>
  \<^verbatim>\<open>df[mask].index[0]\<close>: the position of the first row that satisfies the mask;
  \<open>None\<close> stands for the \<^verbatim>\<open>IndexError\<close> raised when no row does.
\<close>

fun first_index :: "('a \<Rightarrow> bool) \<Rightarrow> 'a list \<Rightarrow> nat option" where
  "first_index P [] = None"
| "first_index P (x # xs) = (if P x then Some 0 else map_option Suc (first_index P xs))"

subsection \<open>Similar products\<close>

text \<open>
  Lines 131 to 140: the row of the matrix is enumerated, sorted by descending score,
  and the slice \<^verbatim>\<open>[1:limit+1]\<close> is kept.
\<close>

definition similarity_scores :: "real list \<Rightarrow> int \<Rightarrow> (nat \<times> real) list" where
  "similarity_scores row limit = py_slice 1 (limit + 1) (sorted_reverse snd (enumerate 0 row))"

definition similar_item :: "product \<Rightarrow> real \<Rightarrow> item" where
  "similar_item p score =
     SimilarItem (product_id p) (name p) (category p) (price p) (rating p) score"

text \<open>
  \<^verbatim>\<open>get_similar_products\<close>. Every \<^verbatim>\<open>IndexError\<close> of the body (no row with this id, a
  row index outside the matrix, \<^verbatim>\<open>iloc\<close> outside the catalog) is caught by the
  \<^verbatim>\<open>except\<close> clause, which returns the empty list.
\<close>

definition get_similar_products :: "engine \<Rightarrow> string \<Rightarrow> int \<Rightarrow> item list" where
  "get_similar_products e pid limit =
     (if products_df e = [] then []
      else
        (case product_similarity_matrix e of
           None \<Rightarrow> []
         | Some matrix \<Rightarrow>
             (case first_index (\<lambda>p. product_id p = pid) (products_df e) of
                None \<Rightarrow> []
              | Some product_idx \<Rightarrow>
                  if length matrix \<le> product_idx then []
                  else
                    (let scores = similarity_scores (matrix ! product_idx) limit
                     in if \<forall>(idx, score) \<in> set scores. idx < length (products_df e)
                        then map (\<lambda>(idx, score). similar_item (products_df e ! idx) score) scores
                        else []))))"

subsection \<open>Trending products and products by category\<close>

text \<open>
  \<^verbatim>\<open>df.nlargest(n, column)\<close> with pandas' default \<^verbatim>\<open>keep='first'\<close>: the first \<open>n\<close> rows
  in descending order of the column, rows with equal values in their original order;
  no row for \<open>n \<le> 0\<close>.
\<close>

definition nlargest :: "int \<Rightarrow> ('a \<Rightarrow> real) \<Rightarrow> 'a list \<Rightarrow> 'a list" where
  "nlargest n column df = take (nat n) (sort_key (\<lambda>row. - column row) df)"

text \<open>
  Lines 166 to 170, in float arithmetic: the \<^verbatim>\<open>int64\<close> columns \<^verbatim>\<open>views\<close> and \<^verbatim>\<open>purchases\<close>
  are converted to floats, the literals are the nearest floats, and the expression
  associates as \<^verbatim>\<open>(views * 0.3 + purchases * 0.5) + (rating * 100) * 0.2\<close>.
\<close>

definition trending_score :: "product \<Rightarrow> real" where
  "trending_score p =
     fadd
       (fadd (fmul (float64 (of_int (views p))) (float64 0.3))
          (fmul (float64 (of_int (purchases p))) (float64 0.5)))
       (fmul (fmul (rating p) 100) (float64 0.2))"

definition trending_item :: "product \<Rightarrow> item" where
  "trending_item row =
     TrendingItem (product_id row) (name row) (category row) (price row) (rating row)
       (views row) (purchases row)"

text \<open>
  \<^verbatim>\<open>get_trending_products\<close> as a method of the engine: the list it returns and the engine
  after the call. The column \<^verbatim>\<open>trending_score\<close> is added to \<open>df\<close>, a copy of the catalog,
  and nothing is assigned to an attribute of the engine.
\<close>

definition get_trending_products_st :: "engine \<Rightarrow> int \<Rightarrow> item list \<times> engine" where
  "get_trending_products_st e limit =
     (if products_df e = [] then ([], e)
      else
        (let df = products_df e;
             trending = nlargest limit trending_score df
         in (map trending_item trending, e)))"

text \<open>The list alone, as the other queries use it.\<close>

definition get_trending_products :: "engine \<Rightarrow> int \<Rightarrow> item list" where
  "get_trending_products e limit = fst (get_trending_products_st e limit)"

definition category_item :: "product \<Rightarrow> item" where
  "category_item row =
     CategoryItem (product_id row) (name row) (category row) (price row) (rating row)"

text \<open>
  \<^verbatim>\<open>get_products_by_category\<close>. Python's \<^verbatim>\<open>str.lower\<close> maps a string by the case tables
  of Unicode, which are no part of the repository: the model takes it as the parameter
  \<open>str_lower\<close>.
\<close>

definition get_products_by_category ::
  "(string \<Rightarrow> string) \<Rightarrow> engine \<Rightarrow> string \<Rightarrow> int \<Rightarrow> item list" where
  "get_products_by_category str_lower e cat limit =
     (if products_df e = [] then []
      else
        (let category_products =
               filter (\<lambda>p. str_lower (category p) = str_lower cat) (products_df e)
         in map category_item (nlargest limit rating category_products)))"

subsection \<open>Recommendations for a user\<close>

text \<open>
  Line 95 builds a Python \<^verbatim>\<open>set\<close> from the product ids of the user's interactions and
  line 99 iterates over it. The order in which a set of strings is iterated is fixed by
  the hash values of its elements, which CPython randomises per process; it is no
  function of the program's data. The model takes it as the parameter \<open>set_iter\<close>,
  which maps the list the set is built from to the order of iteration (some
  enumeration of its distinct elements).
\<close>

definition interacted_products :: "engine \<Rightarrow> string \<Rightarrow> string list" where
  "interacted_products e uid =
     map i_product_id (filter (\<lambda>r. user_id r = uid) (interactions_df e))"

text \<open>Lines 98 to 107: the similar products of every interacted product, filtered.\<close>

definition candidates :: "(string list \<Rightarrow> string list) \<Rightarrow> engine \<Rightarrow> string \<Rightarrow> item list" where
  "candidates set_iter e uid =
     (let interacted = interacted_products e uid;
          recommendations =
            concat (map (\<lambda>pid. get_similar_products e pid 10) (set_iter interacted))
      in filter (\<lambda>rec. item_id rec \<notin> set interacted) recommendations)"

text \<open>Lines 110 to 115: the loop over the candidates, with its two variables.\<close>

fun unique_recommendations :: "item list \<Rightarrow> string set \<Rightarrow> item list \<Rightarrow> item list" where
  "unique_recommendations [] seen unique = unique"
| "unique_recommendations (rec # recs) seen unique =
     (if item_id rec \<notin> seen
      then unique_recommendations recs (insert (item_id rec) seen) (unique @ [rec])
      else unique_recommendations recs seen unique)"

definition get_recommendations_for_user ::
  "(string list \<Rightarrow> string list) \<Rightarrow> engine \<Rightarrow> string \<Rightarrow> int \<Rightarrow> item list" where
  "get_recommendations_for_user set_iter e uid limit =
     (if filter (\<lambda>r. user_id r = uid) (interactions_df e) = []
      then get_trending_products e limit
      else py_slice 0 limit (unique_recommendations (candidates set_iter e uid) {} []))"

subsection \<open>Recording an interaction\<close>

text \<open>
  \<^verbatim>\<open>add_user_interaction\<close> returns \<^verbatim>\<open>True\<close> and the engine with the new row appended;
  \<open>now\<close> is the value of \<^verbatim>\<open>datetime.now().isoformat()\<close>.
\<close>

definition add_user_interaction ::
  "engine \<Rightarrow> string \<Rightarrow> string \<Rightarrow> string \<Rightarrow> string \<Rightarrow> real option \<Rightarrow> bool \<times> engine" where
  "add_user_interaction e now uid pid itype r =
     (let new_interaction =
            \<lparr>user_id = uid, i_product_id = pid, interaction_type = itype,
             i_rating = r, timestamp = now\<rparr>
      in (True, e\<lparr>interactions_df := interactions_df e @ [new_interaction]\<rparr>))"

subsection \<open>Orders used in the statements\<close>


text \<open>
  Position \<open>i\<close> of a list of candidates holds the first occurrence of its product id: no
  earlier position has the same id.
\<close>

definition first_occurrence :: "item list \<Rightarrow> nat \<Rightarrow> bool" where
  "first_occurrence cs i \<longleftrightarrow> i < length cs \<and> (\<forall>j<i. item_id (cs ! j) \<noteq> item_id (cs ! i))"

text \<open>The same order on rows that carry their index.\<close>

definition ranked :: "('a \<Rightarrow> real) \<Rightarrow> nat \<times> 'a \<Rightarrow> nat \<times> 'a \<Rightarrow> bool" where
  "ranked k a b \<longleftrightarrow> k (snd b) < k (snd a) \<or> (k (snd a) = k (snd b) \<and> fst a < fst b)"

subsection \<open>Example engines\<close>


text \<open>
  Two products with the same category, price and rating: their feature vectors are
  equal, so every entry of the similarity matrix is 1.
\<close>

definition twin_engine :: engine where
  "twin_engine =
     \<lparr>products_df =
        [\<lparr>product_id = ''P1'', name = ''Product 1'', category = ''Books'',
          price = 10, rating = 4, views = 100, purchases = 10\<rparr>,
         \<lparr>product_id = ''P2'', name = ''Product 2'', category = ''Books'',
          price = 10, rating = 4, views = 200, purchases = 20\<rparr>],
      interactions_df = [],
      product_similarity_matrix = Some [[1, 1], [1, 1]]\<rparr>"

text \<open>
  Four products of two categories with equal prices and ratings, so that the similarity
  is 1 within a category and 0 across; user \<open>u1\<close> has viewed \<open>P1\<close> and \<open>P2\<close>.
\<close>

definition shop_product :: "string \<Rightarrow> string \<Rightarrow> product" where
  "shop_product pid cat =
     \<lparr>product_id = pid, name = pid, category = cat, price = 10, rating = 4,
      views = 100, purchases = 10\<rparr>"

definition view_of :: "string \<Rightarrow> string \<Rightarrow> interaction" where
  "view_of uid pid =
     \<lparr>user_id = uid, i_product_id = pid, interaction_type = ''view'', i_rating = None,
      timestamp = ''2024-01-01T00:00:00''\<rparr>"

definition shop_engine :: engine where
  "shop_engine =
     \<lparr>products_df =
        [shop_product ''P1'' ''Books'', shop_product ''P2'' ''Sports'',
         shop_product ''P3'' ''Books'', shop_product ''P4'' ''Sports''],
      interactions_df = [view_of ''u1'' ''P1'', view_of ''u1'' ''P2''],
      product_similarity_matrix =
        Some [[1, 0, 1, 0], [0, 1, 0, 1], [1, 0, 1, 0], [0, 1, 0, 1]]\<rparr>"

text \<open>
  Four products, each in a category of its own, with equal prices and ratings: the
  similarity matrix is the identity, so every candidate has score 0 and the ones of
  \<open>P1\<close> and of \<open>P2\<close> repeat the same two products.
\<close>

definition boutique_engine :: engine where
  "boutique_engine =
     \<lparr>products_df =
        [shop_product ''P1'' ''Books'', shop_product ''P2'' ''Sports'',
         shop_product ''P3'' ''Clothing'', shop_product ''P4'' ''Electronics''],
      interactions_df = [view_of ''u1'' ''P1'', view_of ''u1'' ''P2''],
      product_similarity_matrix =
        Some [[1, 0, 0, 0], [0, 1, 0, 0], [0, 0, 1, 0], [0, 0, 0, 1]]\<rparr>"


text \<open>On a string of ASCII characters \<^verbatim>\<open>str.lower\<close> is this function.\<close>

definition lower_char :: "char \<Rightarrow> char" where
  "lower_char c =
     (let n = (of_char c :: nat) in if 65 \<le> n \<and> n \<le> 90 then char_of (n + 32) else c)"

definition ascii_lower :: "string \<Rightarrow> string" where
  "ascii_lower s = map lower_char s"

text \<open>An engine whose catalog is empty; an interaction has been recorded all the same.\<close>

definition empty_engine :: engine where
  "empty_engine =
     \<lparr>products_df = [], interactions_df = [view_of ''u1'' ''P1''],
      product_similarity_matrix = None\<rparr>"

section \<open>Properties\<close>

subsection \<open>The stable descending sort\<close>

lemma ranked_insort_key:
  assumes "sorted_wrt (ranked k) ys" and "\<forall>y\<in>set ys. fst x < fst y"
  shows "sorted_wrt (ranked k) (insort_key (\<lambda>p. - k (snd p)) x ys)"
  using assms
proof (induction ys)
  case Nil
  then show ?case by simp
next
  case (Cons y ys)
  show ?case
  proof (cases "k (snd y) \<le> k (snd x)")
    case True
    have "ranked k x z" if "z \<in> set (y # ys)" for z
    proof -
      have "k (snd z) \<le> k (snd y)"
        using that Cons.prems(1) by (auto simp: ranked_def)
      moreover have "fst x < fst z" using that Cons.prems(2) by auto
      ultimately show ?thesis using True by (auto simp: ranked_def)
    qed
    then show ?thesis using True Cons.prems(1) by simp
  next
    case False
    then have "ranked k y x" by (simp add: ranked_def)
    moreover have "sorted_wrt (ranked k) (insort_key (\<lambda>p. - k (snd p)) x ys)"
      using Cons by simp
    ultimately show ?thesis using False Cons.prems(1) by (auto simp: set_insort_key)
  qed
qed

lemma ranked_sort_key:
  "sorted_wrt (\<lambda>a b. fst a < fst b) xs \<Longrightarrow> sorted_wrt (ranked k) (sort_key (\<lambda>p. - k (snd p)) xs)"
proof (induction xs)
  case Nil
  then show ?case by simp
next
  case (Cons x xs)
  then show ?case by (simp add: ranked_insort_key)
qed

lemma strict_fst_enumerate: "sorted_wrt (\<lambda>a b. fst a < fst b) (enumerate n xs)"
proof -
  have "sorted_wrt (<) (map fst (enumerate n xs))" by simp
  then show ?thesis by (simp only: sorted_wrt_map)
qed




lemma set_py_slice: "set (py_slice a b xs) \<subseteq> set xs"
proof -
  have "set (take n (drop m xs)) \<subseteq> set xs" for n m
    by (meson set_take_subset set_drop_subset subset_trans)
  then show ?thesis by (simp add: py_slice_def Let_def)
qed

lemma sorted_wrt_py_slice: "sorted_wrt R xs \<Longrightarrow> sorted_wrt R (py_slice a b xs)"
  by (simp add: py_slice_def Let_def sorted_wrt_take sorted_wrt_drop)

lemma length_py_slice_from_1: "0 \<le> k \<Longrightarrow> length (py_slice 1 (k + 1) xs) \<le> nat k"
  by (cases xs) (auto simp: py_slice_def Let_def)

lemma py_slice_prefix: "0 \<le> k \<Longrightarrow> py_slice 0 k xs = take (nat k) xs"
  by (auto simp: py_slice_def Let_def min_def)

subsection \<open>Similar products\<close>

lemma similarity_scores_ranked: "sorted_wrt (ranked (\<lambda>s. s)) (similarity_scores row k)"
proof -
  have "sorted_wrt (ranked (\<lambda>s. s)) (sort_key (\<lambda>p. - snd p) (enumerate 0 row))"
    using ranked_sort_key [of "enumerate 0 row" "\<lambda>s. s"] strict_fst_enumerate [of 0 row]
    by simp
  then show ?thesis
    by (simp add: similarity_scores_def sorted_reverse_def sorted_wrt_py_slice)
qed

lemma similarity_scores_entries:
  assumes "p \<in> set (similarity_scores row k)"
  shows "fst p < length row \<and> row ! fst p = snd p"
proof -
  have "p \<in> set (sorted_reverse snd (enumerate 0 row))"
    using assms set_py_slice [of 1 "k + 1" "sorted_reverse snd (enumerate 0 row)"]
    unfolding similarity_scores_def by (rule rev_subsetD)
  then show ?thesis
    by (simp add: sorted_reverse_def in_set_enumerate_eq)
qed

lemma length_similarity_scores: "0 \<le> k \<Longrightarrow> length (similarity_scores row k) \<le> nat k"
  by (simp add: similarity_scores_def length_py_slice_from_1)

lemma get_similar_products_cases:
  "get_similar_products e pid k = [] \<or>
   (\<exists>m q. product_similarity_matrix e = Some m \<and>
      first_index (\<lambda>p. product_id p = pid) (products_df e) = Some q \<and> q < length m \<and>
      (\<forall>p\<in>set (similarity_scores (m ! q) k). fst p < length (products_df e)) \<and>
      get_similar_products e pid k =
        map (\<lambda>p. similar_item (products_df e ! fst p) (snd p)) (similarity_scores (m ! q) k))"
  by (auto simp: get_similar_products_def Let_def case_prod_beta split: option.splits)

text \<open>
  Claim C5. For every limit \<open>k \<ge> 1\<close>, \<^verbatim>\<open>get_similar_products(product_id, k)\<close> returns at
  most \<open>k\<close> items, the similarity scores do not increase along the list, and items
  with equal scores come in ascending order of their catalog row: there are row indices
  \<open>ixs\<close>, one per item, such that each item is built from that row of the catalog, its
  score is the entry of the query product's row of the matrix at that index, and of
  two items with equal scores the earlier one has the smaller row index.
\<close>

theorem similar_products_ranked:
  assumes "1 \<le> k"
  shows "length (get_similar_products e pid k) \<le> nat k \<and>
    sorted_wrt (\<lambda>a b. similarity_score b \<le> similarity_score a) (get_similar_products e pid k) \<and>
    (\<exists>ixs. length ixs = length (get_similar_products e pid k) \<and>
       (\<forall>n<length ixs. ixs ! n < length (products_df e) \<and>
          get_similar_products e pid k ! n =
            similar_item (products_df e ! (ixs ! n))
              (similarity_score (get_similar_products e pid k ! n))) \<and>
       (\<forall>m q. product_similarity_matrix e = Some m \<and>
          first_index (\<lambda>p. product_id p = pid) (products_df e) = Some q \<longrightarrow>
          (\<forall>n<length ixs. ixs ! n < length (m ! q) \<and>
             similarity_score (get_similar_products e pid k ! n) = m ! q ! (ixs ! n))) \<and>
       (\<forall>i j. i < j \<and> j < length ixs \<and>
          similarity_score (get_similar_products e pid k ! i) =
            similarity_score (get_similar_products e pid k ! j) \<longrightarrow> ixs ! i < ixs ! j))"
proof -
  let ?R = "get_similar_products e pid k"
  consider (empty) "?R = []"
    | (found) m q where "product_similarity_matrix e = Some m"
        "first_index (\<lambda>p. product_id p = pid) (products_df e) = Some q" "q < length m"
        "\<forall>p\<in>set (similarity_scores (m ! q) k). fst p < length (products_df e)"
        "?R = map (\<lambda>p. similar_item (products_df e ! fst p) (snd p)) (similarity_scores (m ! q) k)"
    using get_similar_products_cases [of e pid k] by blast
  then show ?thesis
  proof cases
    case empty
    then show ?thesis by simp
  next
    case found
    let ?S = "similarity_scores (m ! q) k"
    have len: "length ?R = length ?S"
      by (simp add: found(5))
    have score: "similarity_score (?R ! n) = snd (?S ! n)" if "n < length ?S" for n
      using that by (simp add: found(5) similar_item_def)
    have item: "?R ! n = similar_item (products_df e ! fst (?S ! n)) (snd (?S ! n))"
      if "n < length ?S" for n
      using that by (simp add: found(5))
    have rk: "ranked (\<lambda>s. s) (?S ! i) (?S ! j)" if "i < j" "j < length ?S" for i j
      using similarity_scores_ranked [of "m ! q" k] that by (simp add: sorted_wrt_iff_nth_less)
    have a: "length ?R \<le> nat k"
      using assms len length_similarity_scores [of k "m ! q"] by simp
    have "sorted_wrt (\<lambda>a b. snd b \<le> snd a) ?S"
      using similarity_scores_ranked [of "m ! q" k]
      by (rule sorted_wrt_mono_rel [rotated]) (auto simp: ranked_def)
    then have b: "sorted_wrt (\<lambda>a b. similarity_score b \<le> similarity_score a) ?R"
      by (simp add: found(5) sorted_wrt_map similar_item_def)
    have c1: "\<forall>n<length (map fst ?S). map fst ?S ! n < length (products_df e) \<and>
        ?R ! n = similar_item (products_df e ! (map fst ?S ! n)) (similarity_score (?R ! n))"
      using found(4) item score by simp
    have c2: "\<forall>m' q'. product_similarity_matrix e = Some m' \<and>
          first_index (\<lambda>p. product_id p = pid) (products_df e) = Some q' \<longrightarrow>
          (\<forall>n<length (map fst ?S). map fst ?S ! n < length (m' ! q') \<and>
             similarity_score (?R ! n) = m' ! q' ! (map fst ?S ! n))"
      using found(1,2) score similarity_scores_entries [of _ "m ! q" k] by simp
    have c3: "\<forall>i j. i < j \<and> j < length (map fst ?S) \<and>
          similarity_score (?R ! i) = similarity_score (?R ! j) \<longrightarrow>
          map fst ?S ! i < map fst ?S ! j"
      using rk score by (fastforce simp: ranked_def)
    have "length (map fst ?S) = length ?R"
      by (simp add: len)
    with c1 c2 c3 have "\<exists>ixs. length ixs = length ?R \<and>
       (\<forall>n<length ixs. ixs ! n < length (products_df e) \<and>
          ?R ! n = similar_item (products_df e ! (ixs ! n)) (similarity_score (?R ! n))) \<and>
       (\<forall>m q. product_similarity_matrix e = Some m \<and>
          first_index (\<lambda>p. product_id p = pid) (products_df e) = Some q \<longrightarrow>
          (\<forall>n<length ixs. ixs ! n < length (m ! q) \<and>
             similarity_score (?R ! n) = m ! q ! (ixs ! n))) \<and>
       (\<forall>i j. i < j \<and> j < length ixs \<and>
          similarity_score (?R ! i) = similarity_score (?R ! j) \<longrightarrow> ixs ! i < ixs ! j)"
      by blast
    with a b show ?thesis by blast
  qed
qed

theorem similar_products_ranked_witness:
  "(1::int) \<le> 3 \<and> length (get_similar_products shop_engine ''P1'' 3) \<le> nat 3 \<and>
   sorted_wrt (\<lambda>a b. similarity_score b \<le> similarity_score a)
     (get_similar_products shop_engine ''P1'' 3) \<and>
   map (\<lambda>r. (item_id r, similarity_score r)) (get_similar_products shop_engine ''P1'' 3) =
     [(''P3'', 1), (''P2'', 0), (''P4'', 0)]"
proof -
  have k: "(1::int) \<le> 3" by simp
  have "map (\<lambda>r. (item_id r, similarity_score r)) (get_similar_products shop_engine ''P1'' 3) =
     [(''P3'', 1), (''P2'', 0), (''P4'', 0)]"
    by code_simp
  with k similar_products_ranked [OF k, of shop_engine "''P1''"] show ?thesis by blast
qed

text \<open>
  Claim C1. The list returned by \<^verbatim>\<open>get_similar_products(p.id, k)\<close> should never contain
  \<open>p.id\<close>. The code drops the first element of the sorted row, which is the query
  product only when no earlier row has a score as high as the diagonal entry. In the
  catalog of two products with equal features, the query for \<open>P2\<close> with limit 1
  returns \<open>P2\<close> itself.
\<close>

theorem similar_products_returns_query_product:
  "get_similar_products twin_engine ''P2'' 1 =
     [SimilarItem ''P2'' ''Product 2'' ''Books'' 10 4 1]"
  by code_simp

theorem similar_products_returns_query_product_witness:
  "''P2'' \<in> item_id ` set (get_similar_products twin_engine ''P2'' 1)"
  using similar_products_returns_query_product by simp


subsection \<open>Trending products\<close>

text \<open>Evaluation of the float operations on numerals.\<close>

lemma floor_log2_int_numeral:
  "floor_log2_int (numeral k) =
     (if numeral k < (2::int) then 0 else 1 + floor_log2_int (numeral k div 2))"
  "floor_log2_int 1 = 0" "floor_log2_int 0 = 0"
  by (simp_all add: floor_log2_int.simps [of "numeral k"] floor_log2_int.simps [of 1]
      floor_log2_int.simps [of 0])

lemmas float_eval = float64_def ulp_def floor_log2_def pow2_def round_half_even_def
  floor_log2_int_numeral fmul_def fadd_def

text \<open>
  Some values of the rounding: the literal \<^verbatim>\<open>0.3\<close>, the sum \<^verbatim>\<open>0.1 + 0.2\<close> (which Python
  prints as \<^verbatim>\<open>0.30000000000000004\<close>), the product \<^verbatim>\<open>6 * 0.3\<close> (\<^verbatim>\<open>1.7999999999999998\<close>), and
  the conversion of the integers \<open>2 ^ 53 + 1\<close> and \<open>2 ^ 53 + 3\<close>, which lie halfway
  between two floats.
\<close>

lemma float64_examples:
  "float64 0.3 = 5404319552844595 / 2 ^ 54"
  "fadd (float64 0.1) (float64 0.2) = 5404319552844596 / 2 ^ 54"
  "fmul (float64 6) (float64 0.3) = 8106479329266892 / 2 ^ 52"
  "float64 (of_int (2 ^ 53 + 1)) = 2 ^ 53"
  "float64 (of_int (2 ^ 53 + 3)) = 2 ^ 53 + 4"
  by (simp_all add: float_eval)

lemma get_trending_products_unfold:
  "get_trending_products e limit =
     (if products_df e = [] then []
      else map trending_item (nlargest limit trending_score (products_df e)))"
  by (simp add: get_trending_products_def get_trending_products_st_def)



subsection \<open>Recommendations for a user\<close>

lemma unique_recommendations_first_seen:
  "\<exists>kept. unique_recommendations recs seen unique = unique @ kept \<and> subseq kept recs \<and>
     distinct (map item_id kept) \<and> item_id ` set kept = item_id ` set recs - seen \<and>
     (\<forall>r\<in>set kept. find (\<lambda>c. item_id c = item_id r) recs = Some r)"
proof (induction recs arbitrary: seen unique)
  case Nil
  then show ?case by simp
next
  case (Cons rec recs)
  show ?case
  proof (cases "item_id rec \<in> seen")
    case True
    obtain kept where kept: "unique_recommendations recs seen unique = unique @ kept"
      "subseq kept recs" "distinct (map item_id kept)"
      "item_id ` set kept = item_id ` set recs - seen"
      "\<forall>r\<in>set kept. find (\<lambda>c. item_id c = item_id r) recs = Some r"
      using Cons.IH [of seen unique] by blast
    have "unique_recommendations (rec # recs) seen unique = unique @ kept"
      using True kept(1) by simp
    moreover have "subseq kept (rec # recs)"
      using kept(2) by (rule list_emb_Cons)
    moreover have "item_id ` set kept = item_id ` set (rec # recs) - seen"
      using True kept(4) by auto
    moreover have "find (\<lambda>c. item_id c = item_id r) (rec # recs) = Some r" if "r \<in> set kept" for r
    proof -
      have "item_id r \<notin> seen" using that kept(4) by blast
      then have "item_id rec \<noteq> item_id r" using True by auto
      then show ?thesis using that kept(5) by simp
    qed
    ultimately show ?thesis using kept(3) by blast
  next
    case False
    obtain kept where kept:
      "unique_recommendations recs (insert (item_id rec) seen) (unique @ [rec]) =
         (unique @ [rec]) @ kept"
      "subseq kept recs" "distinct (map item_id kept)"
      "item_id ` set kept = item_id ` set recs - insert (item_id rec) seen"
      "\<forall>r\<in>set kept. find (\<lambda>c. item_id c = item_id r) recs = Some r"
      using Cons.IH [of "insert (item_id rec) seen" "unique @ [rec]"] by blast
    have "unique_recommendations (rec # recs) seen unique = unique @ (rec # kept)"
      using False kept(1) by simp
    moreover have "subseq (rec # kept) (rec # recs)"
      using kept(2) by simp
    moreover have "distinct (map item_id (rec # kept))"
      using kept(3,4) by auto
    moreover have "item_id ` set (rec # kept) = item_id ` set (rec # recs) - seen"
      using False kept(4) by auto
    moreover have "find (\<lambda>c. item_id c = item_id r) (rec # recs) = Some r"
      if "r \<in> set (rec # kept)" for r
    proof (cases "item_id rec = item_id r")
      case True
      then have "r \<notin> set kept" using kept(4) by auto
      then show ?thesis using that by simp
    next
      case False
      then show ?thesis using that kept(5) by auto
    qed
    ultimately show ?thesis by blast
  qed
qed

lemma first_occurrence_Cons_0: "first_occurrence (r # rs) 0"
  by (simp add: first_occurrence_def)

lemma first_occurrence_Cons_Suc:
  "first_occurrence (r # rs) (Suc i) \<longleftrightarrow>
     first_occurrence rs i \<and> item_id r \<noteq> item_id (rs ! i)"
proof -
  have "(\<forall>j<Suc i. item_id ((r # rs) ! j) \<noteq> item_id (rs ! i)) \<longleftrightarrow>
      item_id r \<noteq> item_id (rs ! i) \<and> (\<forall>j<i. item_id (rs ! j) \<noteq> item_id (rs ! i))"
    by (auto simp: less_Suc_eq_0_disj)
  then show ?thesis
    by (auto simp: first_occurrence_def)
qed

lemma kept_positions_skip:
  assumes "item_id r \<in> seen"
  shows "{i. first_occurrence (r # rs) i \<and> item_id ((r # rs) ! i) \<notin> seen} =
    Suc ` {i. first_occurrence rs i \<and> item_id (rs ! i) \<notin> seen}"
proof (rule set_eqI)
  fix i
  show "i \<in> {i. first_occurrence (r # rs) i \<and> item_id ((r # rs) ! i) \<notin> seen} \<longleftrightarrow>
    i \<in> Suc ` {i. first_occurrence rs i \<and> item_id (rs ! i) \<notin> seen}"
    using assms by (cases i) (auto simp: first_occurrence_Cons_Suc)
qed

lemma kept_positions_keep:
  assumes "item_id r \<notin> seen"
  shows "{i. first_occurrence (r # rs) i \<and> item_id ((r # rs) ! i) \<notin> seen} =
    insert 0 (Suc ` {i. first_occurrence rs i \<and> item_id (rs ! i) \<notin> insert (item_id r) seen})"
proof (rule set_eqI)
  fix i
  show "i \<in> {i. first_occurrence (r # rs) i \<and> item_id ((r # rs) ! i) \<notin> seen} \<longleftrightarrow>
    i \<in> insert 0 (Suc ` {i. first_occurrence rs i \<and> item_id (rs ! i) \<notin> insert (item_id r) seen})"
    using assms by (cases i) (auto simp: first_occurrence_Cons_Suc first_occurrence_Cons_0)
qed

lemma unique_recommendations_positions:
  "\<exists>ixs. unique_recommendations recs seen unique = unique @ map ((!) recs) ixs \<and>
     sorted_wrt (<) ixs \<and>
     set ixs = {i. first_occurrence recs i \<and> item_id (recs ! i) \<notin> seen}"
proof (induction recs arbitrary: seen unique)
  case Nil
  have "{i. first_occurrence [] i \<and> item_id ([] ! i) \<notin> seen} = {}"
    by (simp add: first_occurrence_def)
  then show ?case by simp
next
  case (Cons rec recs)
  show ?case
  proof (cases "item_id rec \<in> seen")
    case True
    obtain ixs where ixs: "unique_recommendations recs seen unique = unique @ map ((!) recs) ixs"
      "sorted_wrt (<) ixs"
      "set ixs = {i. first_occurrence recs i \<and> item_id (recs ! i) \<notin> seen}"
      using Cons.IH [of seen unique] by blast
    have "unique_recommendations (rec # recs) seen unique =
        unique @ map ((!) (rec # recs)) (map Suc ixs)"
      using True ixs(1) by (simp add: comp_def)
    moreover have "sorted_wrt (<) (map Suc ixs)"
      using ixs(2) by (simp add: sorted_wrt_map)
    moreover have "set (map Suc ixs) =
        {i. first_occurrence (rec # recs) i \<and> item_id ((rec # recs) ! i) \<notin> seen}"
      using ixs(3) kept_positions_skip [OF True, of recs] by simp
    ultimately show ?thesis by blast
  next
    case False
    obtain ixs where ixs:
      "unique_recommendations recs (insert (item_id rec) seen) (unique @ [rec]) =
         (unique @ [rec]) @ map ((!) recs) ixs"
      "sorted_wrt (<) ixs"
      "set ixs = {i. first_occurrence recs i \<and> item_id (recs ! i) \<notin> insert (item_id rec) seen}"
      using Cons.IH [of "insert (item_id rec) seen" "unique @ [rec]"] by blast
    have "unique_recommendations (rec # recs) seen unique =
        unique @ map ((!) (rec # recs)) (0 # map Suc ixs)"
      using False ixs(1) by (simp add: comp_def)
    moreover have "sorted_wrt (<) (0 # map Suc ixs)"
      using ixs(2) by (simp add: sorted_wrt_map)
    moreover have "set (0 # map Suc ixs) =
        {i. first_occurrence (rec # recs) i \<and> item_id ((rec # recs) ! i) \<notin> seen}"
      using ixs(3) kept_positions_keep [OF False, of recs] by simp
    ultimately show ?thesis by blast
  qed
qed

text \<open>
  Claim C2. For a user with at least one recorded interaction and a limit \<open>\<ge> 0\<close>, the
  result of \<^verbatim>\<open>get_recommendations_for_user\<close> is the first \<open>limit\<close> items of the candidate
  stream deduplicated by product id, first occurrence kept: the items at the positions
  \<open>ixs\<close> of the candidate stream, in ascending order of position, where \<open>ixs\<close> are
  exactly the positions that hold the first occurrence of their product id. So each
  item carries the score of that first occurrence, and no product id occurs twice.
\<close>

theorem recommendations_first_seen_then_truncated:
  assumes "interacted_products e uid \<noteq> []" and "0 \<le> limit"
  shows "\<exists>ixs. get_recommendations_for_user set_iter e uid limit =
       take (nat limit) (map ((!) (candidates set_iter e uid)) ixs) \<and>
     sorted_wrt (<) ixs \<and>
     set ixs = {i. first_occurrence (candidates set_iter e uid) i} \<and>
     distinct (map item_id (map ((!) (candidates set_iter e uid)) ixs))"
proof -
  obtain ixs where ixs:
    "unique_recommendations (candidates set_iter e uid) {} [] =
       [] @ map ((!) (candidates set_iter e uid)) ixs"
    "sorted_wrt (<) ixs"
    "set ixs = {i. first_occurrence (candidates set_iter e uid) i \<and>
       item_id (candidates set_iter e uid ! i) \<notin> {}}"
    using unique_recommendations_positions [of "candidates set_iter e uid" "{}" "[]"] by blast
  obtain kept where kept:
    "unique_recommendations (candidates set_iter e uid) {} [] = [] @ kept"
    "distinct (map item_id kept)"
    using unique_recommendations_first_seen [of "candidates set_iter e uid" "{}" "[]"] by blast
  have d: "distinct (map item_id (map ((!) (candidates set_iter e uid)) ixs))"
    using ixs(1) kept by simp
  have "filter (\<lambda>r. user_id r = uid) (interactions_df e) \<noteq> []"
    using assms(1) by (simp add: interacted_products_def)
  then have "get_recommendations_for_user set_iter e uid limit =
      take (nat limit) (map ((!) (candidates set_iter e uid)) ixs)"
    using assms(2) ixs(1) by (simp add: get_recommendations_for_user_def py_slice_prefix)
  with ixs(2,3) d show ?thesis by auto
qed

theorem recommendations_first_seen_then_truncated_witness:
  "interacted_products boutique_engine ''u1'' \<noteq> [] \<and> (0::int) \<le> 1 \<and>
   map (\<lambda>r. (item_id r, similarity_score r)) (candidates remdups boutique_engine ''u1'') =
     [(''P3'', 0), (''P4'', 0), (''P3'', 0), (''P4'', 0)] \<and>
   map item_id (get_recommendations_for_user remdups boutique_engine ''u1'' 5) =
     [''P3'', ''P4''] \<and>
   map item_id (get_recommendations_for_user remdups boutique_engine ''u1'' 1) = [''P3''] \<and>
   map (\<lambda>r. (item_id r, similarity_score r)) (candidates remdups shop_engine ''u1'') =
     [(''P3'', 1), (''P4'', 0), (''P4'', 1), (''P3'', 0)] \<and>
   map (\<lambda>r. (item_id r, similarity_score r))
     (get_recommendations_for_user remdups shop_engine ''u1'' 5) = [(''P3'', 1), (''P4'', 0)] \<and>
   (\<exists>ixs. get_recommendations_for_user remdups boutique_engine ''u1'' 1 =
        take (nat 1) (map ((!) (candidates remdups boutique_engine ''u1'')) ixs) \<and>
      sorted_wrt (<) ixs \<and>
      set ixs = {i. first_occurrence (candidates remdups boutique_engine ''u1'') i} \<and>
      distinct (map item_id (map ((!) (candidates remdups boutique_engine ''u1'')) ixs)))"
proof -
  have a: "interacted_products boutique_engine ''u1'' \<noteq> []"
    by code_simp
  have b: "(0::int) \<le> 1"
    by simp
  have c: "map (\<lambda>r. (item_id r, similarity_score r)) (candidates remdups boutique_engine ''u1'') =
     [(''P3'', 0), (''P4'', 0), (''P3'', 0), (''P4'', 0)]"
    by code_simp
  have d: "map item_id (get_recommendations_for_user remdups boutique_engine ''u1'' 5) =
     [''P3'', ''P4'']"
    by code_simp
  have e: "map item_id (get_recommendations_for_user remdups boutique_engine ''u1'' 1) = [''P3'']"
    by code_simp
  have f: "map (\<lambda>r. (item_id r, similarity_score r)) (candidates remdups shop_engine ''u1'') =
     [(''P3'', 1), (''P4'', 0), (''P4'', 1), (''P3'', 0)]"
    by code_simp
  have g: "map (\<lambda>r. (item_id r, similarity_score r))
     (get_recommendations_for_user remdups shop_engine ''u1'' 5) = [(''P3'', 1), (''P4'', 0)]"
    by code_simp
  from a b c d e f g recommendations_first_seen_then_truncated [OF a b, of remdups]
  show ?thesis by blast
qed

lemma set_unique_recommendations:
  "set (unique_recommendations recs seen unique) \<subseteq> set unique \<union> set recs"
  by (induction recs seen unique rule: unique_recommendations.induct) auto

lemma item_ids_candidates:
  "rec \<in> set (candidates set_iter e uid) \<Longrightarrow> item_id rec \<notin> set (interacted_products e uid)"
  by (simp add: candidates_def Let_def)

text \<open>
  Claim C3. A product id that the user has interacted with never occurs in the list
  returned by \<^verbatim>\<open>get_recommendations_for_user\<close>, whatever the limit and whatever the
  order in which the set of interacted products is iterated.
\<close>

theorem recommendations_exclude_interacted:
  assumes "pid \<in> set (interacted_products e uid)"
  shows "pid \<notin> item_id ` set (get_recommendations_for_user set_iter e uid limit)"
proof
  assume "pid \<in> item_id ` set (get_recommendations_for_user set_iter e uid limit)"
  then obtain rec where rec: "rec \<in> set (get_recommendations_for_user set_iter e uid limit)"
    "item_id rec = pid"
    by blast
  have "filter (\<lambda>r. user_id r = uid) (interactions_df e) \<noteq> []"
    using assms by (auto simp: interacted_products_def filter_empty_conv)
  then have "get_recommendations_for_user set_iter e uid limit =
      py_slice 0 limit (unique_recommendations (candidates set_iter e uid) {} [])"
    by (simp add: get_recommendations_for_user_def)
  then have "rec \<in> set (unique_recommendations (candidates set_iter e uid) {} [])"
    using rec(1) set_py_slice [of 0 limit "unique_recommendations (candidates set_iter e uid) {} []"]
    by auto
  then have "rec \<in> set (candidates set_iter e uid)"
    using set_unique_recommendations [of "candidates set_iter e uid" "{}" "[]"] by auto
  then show False
    using item_ids_candidates rec(2) assms by blast
qed

theorem recommendations_exclude_interacted_witness:
  "''P1'' \<in> set (interacted_products shop_engine ''u1'') \<and>
   ''P1'' \<notin> item_id ` set (get_recommendations_for_user remdups shop_engine ''u1'' 5) \<and>
   map item_id (get_recommendations_for_user remdups shop_engine ''u1'' 5) = [''P3'', ''P4'']"
proof -
  have a: "''P1'' \<in> set (interacted_products shop_engine ''u1'')"
    by code_simp
  have b: "map item_id (get_recommendations_for_user remdups shop_engine ''u1'' 5) = [''P3'', ''P4'']"
    by code_simp
  from a b recommendations_exclude_interacted [OF a, of remdups 5] show ?thesis by blast
qed


text \<open>
  Claim C8. Two calls of \<^verbatim>\<open>get_recommendations_for_user\<close> on the same catalog, matrix
  and interaction log should return the same list. The code iterates over a Python set
  of strings; with the two orders in which the set of \<open>P1\<close> and \<open>P2\<close> can be
  iterated, the same engine, user and limit give two different lists.
\<close>

theorem recommendations_depend_on_set_order:
  "remdups (interacted_products shop_engine ''u1'') = [''P1'', ''P2''] \<and>
   (rev \<circ> remdups) (interacted_products shop_engine ''u1'') = [''P2'', ''P1''] \<and>
   map item_id (get_recommendations_for_user remdups shop_engine ''u1'' 1) = [''P3''] \<and>
   map item_id (get_recommendations_for_user (rev \<circ> remdups) shop_engine ''u1'' 1) = [''P4'']"
  by code_simp

theorem recommendations_depend_on_set_order_witness:
  "get_recommendations_for_user remdups shop_engine ''u1'' 1 \<noteq>
   get_recommendations_for_user (rev \<circ> remdups) shop_engine ''u1'' 1"
proof
  assume "get_recommendations_for_user remdups shop_engine ''u1'' 1 =
    get_recommendations_for_user (rev \<circ> remdups) shop_engine ''u1'' 1"
  then have "map item_id (get_recommendations_for_user remdups shop_engine ''u1'' 1) =
    map item_id (get_recommendations_for_user (rev \<circ> remdups) shop_engine ''u1'' 1)"
    by simp
  moreover have "map item_id (get_recommendations_for_user remdups shop_engine ''u1'' 1) =
    [''P3'']"
    using recommendations_depend_on_set_order by (rule conjunct2 [THEN conjunct2, THEN conjunct1])
  moreover have
    "map item_id (get_recommendations_for_user (rev \<circ> remdups) shop_engine ''u1'' 1) = [''P4'']"
    using recommendations_depend_on_set_order by (rule conjunct2 [THEN conjunct2, THEN conjunct2])
  ultimately have "[''P3''] = [''P4'']"
    by (simp only:)
  then show False
    by simp
qed


subsection \<open>Recording an interaction\<close>

text \<open>
  Claim C10. \<^verbatim>\<open>add_user_interaction\<close> returns \<^verbatim>\<open>True\<close>; the interaction log of the
  engine afterwards is the old log followed by the one new record, so it is one row
  longer and its old rows are unchanged; the catalog and the similarity matrix are
  unchanged.
\<close>

theorem add_user_interaction_frame:
  "fst (add_user_interaction e now uid pid itype r) = True \<and>
   interactions_df (snd (add_user_interaction e now uid pid itype r)) =
     interactions_df e @
       [\<lparr>user_id = uid, i_product_id = pid, interaction_type = itype, i_rating = r,
         timestamp = now\<rparr>] \<and>
   take (length (interactions_df e))
     (interactions_df (snd (add_user_interaction e now uid pid itype r))) = interactions_df e \<and>
   length (interactions_df (snd (add_user_interaction e now uid pid itype r))) =
     Suc (length (interactions_df e)) \<and>
   products_df (snd (add_user_interaction e now uid pid itype r)) = products_df e \<and>
   product_similarity_matrix (snd (add_user_interaction e now uid pid itype r)) =
     product_similarity_matrix e"
  by (simp add: add_user_interaction_def)

subsection \<open>Unknown product ids and the empty catalog\<close>

lemma first_index_None: "first_index P xs = None \<longleftrightarrow> (\<forall>x\<in>set xs. \<not> P x)"
  by (induction xs) auto

text \<open>
  Claim C6. \<^verbatim>\<open>get_similar_products\<close> returns the empty list for a product id that no
  row of the catalog has, and on an empty catalog each of the four read queries returns
  the empty list (the category query whatever \<^verbatim>\<open>str.lower\<close> maps the strings to). The exceptions of the Python code are the \<^verbatim>\<open>IndexError\<close> branches of
  the model, all of which end in the empty list.
\<close>

theorem unknown_or_empty_returns_empty:
  "(pid \<notin> product_id ` set (products_df e) \<longrightarrow> get_similar_products e pid k = []) \<and>
   (products_df e = [] \<longrightarrow>
      get_similar_products e pid k = [] \<and> get_trending_products e k = [] \<and>
      get_products_by_category str_lower e cat k = [] \<and>
      get_recommendations_for_user set_iter e uid k = [])"
proof -
  have a: "get_similar_products e pid k = []" if "pid \<notin> product_id ` set (products_df e)"
  proof -
    have "first_index (\<lambda>p. product_id p = pid) (products_df e) = None"
      using that by (auto simp: first_index_None)
    then show ?thesis
      by (simp add: get_similar_products_def split: option.splits)
  qed
  have b: "get_similar_products e q n = []" if "products_df e = []" for q n
    using that by (simp add: get_similar_products_def)
  have c: "get_trending_products e k = []" if "products_df e = []"
    using that by (simp add: get_trending_products_unfold)
  have d: "get_products_by_category str_lower e cat k = []" if "products_df e = []"
    using that by (simp add: get_products_by_category_def)
  have e: "get_recommendations_for_user set_iter e uid k = []" if "products_df e = []"
  proof -
    have "candidates set_iter e uid = []"
      using b [OF that] by (simp add: candidates_def Let_def)
    then show ?thesis
      using c [OF that] by (simp add: get_recommendations_for_user_def py_slice_def)
  qed
  from a b c d e show ?thesis by blast
qed

theorem unknown_or_empty_returns_empty_witness:
  "''P9'' \<notin> product_id ` set (products_df shop_engine) \<and>
   get_similar_products shop_engine ''P9'' 5 = [] \<and>
   products_df empty_engine = [] \<and>
   get_similar_products empty_engine ''P1'' 5 = [] \<and> get_trending_products empty_engine 5 = [] \<and>
   get_products_by_category ascii_lower empty_engine ''Books'' 5 = [] \<and>
   get_recommendations_for_user remdups empty_engine ''u1'' 5 = [] \<and>
   get_recommendations_for_user remdups empty_engine ''u2'' 5 = []"
proof -
  have a: "''P9'' \<notin> product_id ` set (products_df shop_engine)"
    by (simp add: shop_engine_def shop_product_def)
  have b: "products_df empty_engine = []"
    by (simp add: empty_engine_def)
  from a b
    unknown_or_empty_returns_empty [of "''P9''" shop_engine 5]
    unknown_or_empty_returns_empty [of "''P1''" empty_engine 5 ascii_lower "''Books''" remdups "''u1''"]
    unknown_or_empty_returns_empty [of "''P1''" empty_engine 5 ascii_lower "''Books''" remdups "''u2''"]
  show ?thesis by blast
qed

end
